theory Spec2Isabelle
  imports Complex_Main "HOL-Library.Word" "HOL-Library.Log_Nat"
begin

unbundle bit_operations_syntax

section \<open>Numbers of the Go run time and of math/big\<close>

text \<open>
  The amounts of the program pass through three number types: \<open>float64\<close>
  (IEEE 754 binary64), \<open>math/big.Float\<close> (binary floating point of a chosen
  precision) and \<open>math/big.Int\<close>. A finite binary floating-point number is a
  sign, a mantissa \<open>m \<ge> 0\<close> and an exponent \<open>e\<close> and stands for
  \<open>m * 2 ^ e\<close>; every operation computes the exact result and rounds it to the
  nearest representable number, ties to the even mantissa. All of it is
  integer arithmetic.
\<close>

subsection \<open>Rounding\<close>

text \<open>\<open>a / b\<close> rounded to the nearest integer, ties to even (\<open>0 \<le> a\<close>, \<open>0 < b\<close>).\<close>

definition rhe_div :: "int \<Rightarrow> int \<Rightarrow> int" where
  "rhe_div a b =
     (let q = a div b; r = a mod b in
      if 2 * r < b then q else if b < 2 * r then q + 1 else if even q then q else q + 1)"

text \<open>\<open>m * 2 ^ e\<close> rounded to a multiple of \<open>2 ^ q\<close>.\<close>

definition round_at :: "int \<Rightarrow> int \<Rightarrow> int \<Rightarrow> int \<times> int" where
  "round_at q m e = (if q \<le> e then (m, e) else (rhe_div m (2 ^ nat (q - e)), q))"

text \<open>\<open>a / b\<close> rounded to a multiple of \<open>2 ^ q\<close>.\<close>

definition round_frac_at :: "int \<Rightarrow> int \<Rightarrow> int \<Rightarrow> int \<times> int" where
  "round_frac_at q a b =
     (if 0 \<le> q then (rhe_div a (b * 2 ^ nat q), q) else (rhe_div (a * 2 ^ nat (- q)) b, q))"

text \<open>\<open>\<lfloor>log\<^sub>2 (a / b)\<rfloor>\<close> for \<open>0 < a\<close> and \<open>0 < b\<close>.\<close>

definition floor_log2_frac :: "int \<Rightarrow> int \<Rightarrow> int" where
  "floor_log2_frac a b =
     (let k = bitlen a - bitlen b in
      if (if 0 \<le> k then b * 2 ^ nat k \<le> a else b \<le> a * 2 ^ nat (- k)) then k else k - 1)"

subsection \<open>float64\<close>

text \<open>
  \<open>F64 s m e\<close> is \<open>(-1) ^ s * m * 2 ^ e\<close>; the sign of a zero is kept. binary64 has
  53 bits of mantissa, its smallest quantum is \<open>2 ^ -1074\<close> and a result of
  \<open>2 ^ 1024\<close> or more is an infinity.
\<close>

datatype float64 = F64 bool int int | F64Inf bool | F64NaN

definition f64_overflow :: "int \<Rightarrow> int \<Rightarrow> bool" where
  "f64_overflow m e = (971 \<le> e \<and> 2 ^ 53 \<le> m * 2 ^ nat (e - 971))"

definition f64_round :: "bool \<Rightarrow> int \<Rightarrow> int \<Rightarrow> float64" where
  "f64_round s m e =
     (let (m', e') = round_at (max (e + bitlen m - 53) (- 1074)) m e in
      if f64_overflow m' e' then F64Inf s else F64 s m' e')"

text \<open>The float64 nearest to \<open>a / b\<close> (\<open>0 \<le> a\<close>, \<open>0 < b\<close>).\<close>

definition f64_of_frac :: "bool \<Rightarrow> int \<Rightarrow> int \<Rightarrow> float64" where
  "f64_of_frac s a b =
     (if a = 0 then F64 s 0 0
      else let (m', e') = round_frac_at (max (floor_log2_frac a b - 52) (- 1074)) a b in
           if f64_overflow m' e' then F64Inf s else F64 s m' e')"

text \<open>The conversion \<open>float64(v)\<close> of an \<open>int\<close>.\<close>

definition f64_of_int :: "int \<Rightarrow> float64" where
  "f64_of_int v = f64_round (v < 0) \<bar>v\<bar> 0"

fun f64_mul :: "float64 \<Rightarrow> float64 \<Rightarrow> float64" where
  "f64_mul F64NaN y = F64NaN"
| "f64_mul x F64NaN = F64NaN"
| "f64_mul (F64Inf s) (F64Inf t) = F64Inf (s \<noteq> t)"
| "f64_mul (F64Inf s) (F64 t n f) = (if n = 0 then F64NaN else F64Inf (s \<noteq> t))"
| "f64_mul (F64 s m e) (F64Inf t) = (if m = 0 then F64NaN else F64Inf (s \<noteq> t))"
| "f64_mul (F64 s m e) (F64 t n f) = f64_round (s \<noteq> t) (m * n) (e + f)"

fun f64_div :: "float64 \<Rightarrow> float64 \<Rightarrow> float64" where
  "f64_div F64NaN y = F64NaN"
| "f64_div x F64NaN = F64NaN"
| "f64_div (F64Inf s) (F64Inf t) = F64NaN"
| "f64_div (F64Inf s) (F64 t n f) = F64Inf (s \<noteq> t)"
| "f64_div (F64 s m e) (F64Inf t) = F64 (s \<noteq> t) 0 0"
| "f64_div (F64 s m e) (F64 t n f) =
     (if n = 0 then (if m = 0 then F64NaN else F64Inf (s \<noteq> t))
      else if e \<le> f then f64_of_frac (s \<noteq> t) m (n * 2 ^ nat (f - e))
      else f64_of_frac (s \<noteq> t) (m * 2 ^ nat (e - f)) n)"

text \<open>
  \<open>math.Pow10\<close>: the product of two table entries for \<open>0 \<le> n \<le> 308\<close>, the
  quotient of two for \<open>-323 \<le> n \<le> 0\<close>; each entry is the float64 constant
  \<open>1e(i)\<close>, \<open>1e(32 i)\<close> or \<open>1e(-32 i)\<close>.
\<close>

definition Pow10 :: "int \<Rightarrow> float64" where
  "Pow10 n =
     (if 0 \<le> n \<and> n \<le> 308 then
        f64_mul (f64_of_frac False (10 ^ (32 * (nat n div 32))) 1)
                (f64_of_frac False (10 ^ (nat n mod 32)) 1)
      else if - 323 \<le> n \<and> n \<le> 0 then
        f64_div (f64_of_frac False 1 (10 ^ (32 * (nat (- n) div 32))))
                (f64_of_frac False (10 ^ (nat (- n) mod 32)) 1)
      else if 0 < n then F64Inf False
      else F64 False 0 0)"

text \<open>
  The conversion \<open>int64(x)\<close> discards the fraction. Where the result does not
  fit (or \<open>x\<close> is no number) the language leaves the value to the
  implementation: \<open>oor\<close> is what the platform gives there.
\<close>

definition f64_trunc :: "bool \<Rightarrow> int \<Rightarrow> int \<Rightarrow> int" where
  "f64_trunc s m e =
     (let t = (if 0 \<le> e then m * 2 ^ nat e else m div 2 ^ nat (- e)) in if s then - t else t)"

definition int64_of_f64 :: "(float64 \<Rightarrow> 64 word) \<Rightarrow> float64 \<Rightarrow> 64 word" where
  "int64_of_f64 oor x =
     (case x of
        F64 s m e \<Rightarrow>
          (let v = f64_trunc s m e in
           if - (2 ^ 63) \<le> v \<and> v < 2 ^ 63 then word_of_int v else oor x)
      | F64Inf s \<Rightarrow> oor x
      | F64NaN \<Rightarrow> oor x)"

subsection \<open>Decimal text\<close>

definition digit_char :: "int \<Rightarrow> char" where
  "digit_char d = ''0123456789'' ! nat d"

function digits_of :: "int \<Rightarrow> string" where
  "digits_of n = (if n < 10 then [digit_char n] else digits_of (n div 10) @ [digit_char (n mod 10)])"
  by pat_completeness auto
termination
  by (relation "measure nat") auto

declare digits_of.simps [simp del]

text \<open>The last \<open>w\<close> decimal digits of \<open>r\<close>, zeros included.\<close>

primrec frac_digits :: "nat \<Rightarrow> int \<Rightarrow> string" where
  "frac_digits 0 r = []"
| "frac_digits (Suc w) r = frac_digits w (r div 10) @ [digit_char (r mod 10)]"

text \<open>\<open>N / 10 ^ w\<close> in fixed-point notation with \<open>w\<close> digits after the point.\<close>

definition fixed_point :: "nat \<Rightarrow> int \<Rightarrow> string" where
  "fixed_point w N =
     digits_of (N div 10 ^ w) @ (if 0 < w then ''.'' @ frac_digits w (N mod 10 ^ w) else [])"

text \<open>
  \<open>m * 2 ^ e * 10 ^ w\<close> rounded to an integer, ties to even: the exact decimal
  expansion of a binary number cut after \<open>w\<close> fractional digits, as
  \<open>strconv\<close> and \<open>big.Float.Text\<close> round it.
\<close>

definition scaled_round :: "int \<Rightarrow> int \<Rightarrow> nat \<Rightarrow> int" where
  "scaled_round m e w =
     (if 0 \<le> e then m * 2 ^ nat e * 10 ^ w else rhe_div (m * 10 ^ w) (2 ^ nat (- e)))"

text \<open>\<open>fmt.Sprintf("%f", x)\<close>: six digits after the point.\<close>

definition Sprintf_f :: "float64 \<Rightarrow> string" where
  "Sprintf_f x =
     (case x of
        F64 s m e \<Rightarrow> (if s then ''-'' else []) @ fixed_point 6 (scaled_round m e 6)
      | F64Inf s \<Rightarrow> (if s then ''-Inf'' else ''+Inf'')
      | F64NaN \<Rightarrow> ''NaN'')"

subsection \<open>math/big.Float\<close>

text \<open>
  A \<open>big.Float\<close> has a precision in bits, a sign and a form. A receiver of
  precision 0 takes its precision from the operands. The exponent of a
  \<open>big.Float\<close> is a 32-bit integer; the model lets it be any integer.
\<close>

datatype form = Fzero | Ffinite int int | Finf

record big_Float =
  bf_prec :: int
  bf_neg :: bool
  bf_form :: form

definition new_Float :: big_Float where
  "new_Float = \<lparr>bf_prec = 0, bf_neg = False, bf_form = Fzero\<rparr>"

definition big_round :: "int \<Rightarrow> int \<Rightarrow> int \<Rightarrow> form" where
  "big_round prec m e = (let (m', e') = round_at (e + bitlen m - prec) m e in Ffinite m' e')"

definition SetInt :: "big_Float \<Rightarrow> int \<Rightarrow> big_Float" where
  "SetInt z x =
     (let p = (if bf_prec z = 0 then max (bitlen \<bar>x\<bar>) 64 else bf_prec z) in
      \<lparr>bf_prec = p, bf_neg = (x < 0),
       bf_form = (if x = 0 then Fzero else big_round p \<bar>x\<bar> 0)\<rparr>)"

text \<open>\<open>Inl\<close> is a panic with \<open>big.ErrNaN\<close>.\<close>

definition SetFloat64 :: "big_Float \<Rightarrow> float64 \<Rightarrow> string + big_Float" where
  "SetFloat64 z x =
     (let p = (if bf_prec z = 0 then 53 else bf_prec z) in
      case x of
        F64NaN \<Rightarrow> Inl ''Float.SetFloat64(NaN)''
      | F64Inf s \<Rightarrow> Inr \<lparr>bf_prec = p, bf_neg = s, bf_form = Finf\<rparr>
      | F64 s m e \<Rightarrow>
          Inr \<lparr>bf_prec = p, bf_neg = s,
               bf_form = (if m = 0 then Fzero else big_round p m e)\<rparr>)"

definition Mul :: "big_Float \<Rightarrow> big_Float \<Rightarrow> big_Float \<Rightarrow> string + big_Float" where
  "Mul z x y =
     (let p = (if bf_prec z = 0 then max (bf_prec x) (bf_prec y) else bf_prec z);
          s = (bf_neg x \<noteq> bf_neg y) in
      case (bf_form x, bf_form y) of
        (Ffinite m e, Ffinite n f) \<Rightarrow>
          Inr \<lparr>bf_prec = p, bf_neg = s, bf_form = big_round p (m * n) (e + f)\<rparr>
      | (Fzero, Finf) \<Rightarrow> Inl ''multiplication of zero with infinity''
      | (Finf, Fzero) \<Rightarrow> Inl ''multiplication of zero with infinity''
      | (Finf, _) \<Rightarrow> Inr \<lparr>bf_prec = p, bf_neg = s, bf_form = Finf\<rparr>
      | (_, Finf) \<Rightarrow> Inr \<lparr>bf_prec = p, bf_neg = s, bf_form = Finf\<rparr>
      | _ \<Rightarrow> Inr \<lparr>bf_prec = p, bf_neg = s, bf_form = Fzero\<rparr>)"

text \<open>
  The quotient of two finite numbers is \<open>(m / n) * 2 ^ (e - f)\<close>, rounded to
  \<open>p\<close> bits.
\<close>

definition big_round_quo :: "int \<Rightarrow> int \<Rightarrow> int \<Rightarrow> int \<Rightarrow> int \<Rightarrow> form" where
  "big_round_quo prec m e n f =
     (let (m', q) = round_frac_at (floor_log2_frac m n - (prec - 1)) m n in Ffinite m' (q + e - f))"

definition Quo :: "big_Float \<Rightarrow> big_Float \<Rightarrow> big_Float \<Rightarrow> string + big_Float" where
  "Quo z x y =
     (let p = (if bf_prec z = 0 then max (bf_prec x) (bf_prec y) else bf_prec z);
          s = (bf_neg x \<noteq> bf_neg y) in
      case (bf_form x, bf_form y) of
        (Ffinite m e, Ffinite n f) \<Rightarrow>
          Inr \<lparr>bf_prec = p, bf_neg = s, bf_form = big_round_quo p m e n f\<rparr>
      | (Fzero, Fzero) \<Rightarrow> Inl ''division of zero by zero or infinity by infinity''
      | (Finf, Finf) \<Rightarrow> Inl ''division of zero by zero or infinity by infinity''
      | (Fzero, _) \<Rightarrow> Inr \<lparr>bf_prec = p, bf_neg = s, bf_form = Fzero\<rparr>
      | (_, Finf) \<Rightarrow> Inr \<lparr>bf_prec = p, bf_neg = s, bf_form = Fzero\<rparr>
      | _ \<Rightarrow> Inr \<lparr>bf_prec = p, bf_neg = s, bf_form = Finf\<rparr>)"

text \<open>
  \<open>x.Text('f', prec)\<close>. With \<open>prec < 0\<close> the library prints the shortest
  decimal text that reads back as \<open>x\<close>; that text is the parameter
  \<open>shortest\<close>.
\<close>

definition Text_f :: "(big_Float \<Rightarrow> string) \<Rightarrow> big_Float \<Rightarrow> int \<Rightarrow> string" where
  "Text_f shortest x prec =
     (if bf_neg x then ''-'' else []) @
     (case bf_form x of
        Finf \<Rightarrow> (if bf_neg x then ''Inf'' else ''+Inf'')
      | Fzero \<Rightarrow> (if prec < 0 then shortest x else fixed_point (nat prec) 0)
      | Ffinite m e \<Rightarrow>
          (if prec < 0 then shortest x
           else fixed_point (nat prec) (scaled_round m e (nat prec))))"

subsection \<open>math/big.Int\<close>

definition is_digit :: "char \<Rightarrow> bool" where
  "is_digit c = (c \<in> set ''0123456789'')"

definition digit_val :: "char \<Rightarrow> int" where
  "digit_val c = int (of_char c) - 48"

definition decimal_value :: "string \<Rightarrow> int" where
  "decimal_value ds = foldl (\<lambda>acc c. acc * 10 + digit_val c) 0 ds"

text \<open>
  \<open>z.SetString(s, 10)\<close>: the new value of the receiver \<open>z\<close> and the success
  flag. \<open>Int.SetString\<close> runs \<open>z.scan\<close>, which reads an optional sign and the
  longest run of digits and assigns their value to \<open>z\<close> (0 when there is no
  digit), and only afterwards checks that the whole text was consumed:
  anything left over makes the call return \<open>(nil, false)\<close> with \<open>z\<close>
  already overwritten. The documentation of \<open>SetString\<close> calls the value of
  \<open>z\<close> after a failure undefined; the model gives what the library's code
  leaves there. An empty text fails before \<open>z\<close> is touched.
\<close>

definition SetString10 :: "int \<Rightarrow> string \<Rightarrow> int \<times> bool" where
  "SetString10 z s =
     (case s of
        [] \<Rightarrow> (z, False)
      | c # cs \<Rightarrow>
          (let neg = (c = CHR ''-'');
               rest = (if c = CHR ''-'' \<or> c = CHR ''+'' then cs else s);
               ds = takeWhile is_digit rest;
               left = dropWhile is_digit rest
           in if ds = [] then (0, False)
              else ((if neg then - decimal_value ds else decimal_value ds), left = [])))"

section \<open>External collaborators: node, key store, contract interface\<close>

text \<open>
  The program talks to three things it does not implement: the remote node
  (\<open>ethclient\<close>), the encrypted key store (\<open>keystore\<close>) and the contract
  interface loaded from \<open>./token/abi.json\<close>. Each is a field of the record
  \<open>env\<close>: a stub that answers a call with a result or with an error text.
  Every call the program makes is appended to a trace of events, so that the
  order of the calls is part of what a command returns.
\<close>

type_synonym byte = "8 word"

type_synonym address = "byte list"

datatype abi_arg = ArgAddress address | ArgInt int

text \<open>\<open>abi.ABI\<close>: only its method \<open>Pack(name, args...)\<close> is used.\<close>

type_synonym abi = "string \<Rightarrow> abi_arg list \<Rightarrow> string + byte list"

record account =
  acc_address :: address
  acc_url :: string

record transaction =
  tx_nonce :: "64 word"
  tx_to :: address
  tx_value :: int
  tx_gasLimit :: "64 word"
  tx_gasPrice :: int
  tx_data :: "byte list"

datatype signed_transaction = SignedTx transaction "byte list"

datatype event =
    Dial
  | Unlock account string
  | BalanceAt address
  | CallContract address "byte list"
  | PendingNonceAt address
  | SuggestGasPrice
  | SignTx account transaction int
  | SendTransaction signed_transaction
  | Printf string

record env =
  dial :: "string option"
  accounts :: "account list"
  unlock :: "account \<Rightarrow> string \<Rightarrow> string option"
  signTx :: "account \<Rightarrow> transaction \<Rightarrow> int \<Rightarrow> string + signed_transaction"
  balanceAt :: "address \<Rightarrow> string + int"
  pendingNonceAt :: "address \<Rightarrow> string + 64 word"
  suggestGasPrice :: "string + int"
  callContract :: "address \<Rightarrow> byte list \<Rightarrow> string + byte list"
  sendTransaction :: "signed_transaction \<Rightarrow> string option"
  loadTokenABI :: "string + abi"
  hexToAddress :: "string \<Rightarrow> address"
  addressHex :: "address \<Rightarrow> string"
  txHashHex :: "signed_transaction \<Rightarrow> string"
  keystorePassword :: string
  int64_out_of_range :: "float64 \<Rightarrow> 64 word"
  shortest_text :: "big_Float \<Rightarrow> string"

text \<open>
  Every \<open>fmt.Errorf\<close> of the source is one constructor; the wrapped cause
  (\<open>%w\<close>) is its argument. \<open>Panic\<close> is a run-time panic of the process.
\<close>

datatype error =
    InvalidAccountIndex
  | InvalidSenderAccountIndex
  | FailedToConnect string
  | FailedToGetEthBalance string
  | FailedToGetTokenBalance error
  | FailedToUnlockAccount string
  | FailedToGetNonce string
  | FailedToGetGasPrice string
  | FailedToSignTransaction string
  | FailedToSendTransaction string
  | FailedToCreateTokenContract error
  | FailedToPackTransferData string
  | FailedToLoadTokenABI string
  | FailedToPackBalanceOf string
  | FailedToCallBalanceOf string
  | Panic string

section \<open>token/token.go\<close>

record Token =
  tok_address :: address
  tok_decimal :: int
  tok_ABI :: abi

definition ERCToken :: "env \<Rightarrow> string \<Rightarrow> int \<Rightarrow> error + Token" where
  "ERCToken e addr decimal =
     (case loadTokenABI e of
        Inl err \<Rightarrow> Inl (FailedToLoadTokenABI err)
      | Inr parsedABI \<Rightarrow>
          Inr \<lparr>tok_address = hexToAddress e addr, tok_decimal = decimal, tok_ABI = parsedABI\<rparr>)"

text \<open>\<open>big.Int.SetBytes\<close>: the bytes read as a big-endian unsigned integer.\<close>

definition SetBytes :: "byte list \<Rightarrow> int" where
  "SetBytes bs = foldl (\<lambda>acc b. acc * 256 + uint b) 0 bs"

definition BalanceOf ::
  "env \<Rightarrow> Token \<Rightarrow> string \<Rightarrow> event list \<Rightarrow> (error + int) \<times> event list" where
  "BalanceOf e t addr tr =
     (let addressToCheck = hexToAddress e addr in
      case tok_ABI t ''balanceOf'' [ArgAddress addressToCheck] of
        Inl err \<Rightarrow> (Inl (FailedToPackBalanceOf err), tr)
      | Inr data \<Rightarrow>
          (let tr = tr @ [CallContract (tok_address t) data] in
           case callContract e (tok_address t) data of
             Inl err \<Rightarrow> (Inl (FailedToCallBalanceOf err), tr)
           | Inr result \<Rightarrow> (Inr (SetBytes result), tr)))"

section \<open>main.go\<close>

text \<open>A panic of one step ends the function: \<open>Inl\<close> is passed on.\<close>

definition and_then :: "'e + 'a \<Rightarrow> ('a \<Rightarrow> 'e + 'b) \<Rightarrow> 'e + 'b" where
  "and_then r f = (case r of Inl p \<Rightarrow> Inl p | Inr x \<Rightarrow> f x)"

text \<open>
  The divisor of \<open>formatBigIntToDecimal\<close>. In Go \<open>^\<close> on integers is the
  bitwise exclusive or, so \<open>10^decimals\<close> of the source is \<open>10 XOR decimals\<close>.
\<close>

definition divisor_of :: "int \<Rightarrow> string + big_Float" where
  "divisor_of decimals =
     and_then (SetFloat64 new_Float (F64 False 1 0)) (\<lambda>divisor.
     and_then (SetFloat64 new_Float (F64 False (10 ^ 18) 0)) (\<lambda>y.
     and_then (Mul divisor divisor y) (\<lambda>divisor.
       if decimals \<noteq> 18 then
         and_then (SetFloat64 divisor (F64 False 1 0)) (\<lambda>divisor.
         and_then (SetFloat64 new_Float (f64_of_int (10 XOR decimals))) (\<lambda>y.
           Mul divisor divisor y))
       else Inr divisor)))"

definition formatBigIntToDecimal ::
  "(big_Float \<Rightarrow> string) \<Rightarrow> int \<Rightarrow> int \<Rightarrow> string + string" where
  "formatBigIntToDecimal shortest amount decimals =
     (let amountFloat = SetInt new_Float amount in
      and_then (divisor_of decimals) (\<lambda>divisor.
      and_then (Quo new_Float amountFloat divisor) (\<lambda>humanReadable.
        Inr (Text_f shortest humanReadable decimals))))"

text \<open>\<open>chainId = *big.NewInt(1)\<close>, set in \<open>main\<close>.\<close>

definition chainId :: int where
  "chainId = 1"

definition newline :: string where
  "newline = [CHR 0x0A]"

definition getTokenBalance ::
  "env \<Rightarrow> string \<Rightarrow> int \<Rightarrow> address \<Rightarrow> event list \<Rightarrow> (error + int) \<times> event list" where
  "getTokenBalance e tokenAddress decimal addr tr =
     (case ERCToken e tokenAddress decimal of
        Inl err \<Rightarrow> (Inl err, tr)
      | Inr tokenContract \<Rightarrow> BalanceOf e tokenContract (addressHex e addr) tr)"

definition checkBalance ::
  "env \<Rightarrow> int \<Rightarrow> string \<Rightarrow> int \<Rightarrow> (error + unit) \<times> event list" where
  "checkBalance e index tokenAddress decimal =
     (if index < 0 \<or> int (length (accounts e)) \<le> index then (Inl InvalidAccountIndex, [])
      else
       (let tr = [Dial] in
        (case dial e of
          Some err \<Rightarrow> (Inl (FailedToConnect err), tr)
        | None \<Rightarrow>
       (let ethAddress = acc_address (accounts e ! nat index);
            tr = tr @ [BalanceAt ethAddress] in
        (case balanceAt e ethAddress of
          Inl err \<Rightarrow> (Inl (FailedToGetEthBalance err), tr)
        | Inr ethBalance \<Rightarrow>
        (case formatBigIntToDecimal (shortest_text e) ethBalance 18 of
          Inl p \<Rightarrow> (Inl (Panic p), tr)
        | Inr ethText \<Rightarrow>
       (let tr = tr @ [Printf (''ETH Balance of '' @ addressHex e ethAddress @ '': '' @
                       ethText @ newline)] in
        (case getTokenBalance e tokenAddress decimal ethAddress tr of
          (Inl err, tr) \<Rightarrow> (Inl (FailedToGetTokenBalance err), tr)
        | (Inr tokenBalance, tr) \<Rightarrow>
        (case formatBigIntToDecimal (shortest_text e) tokenBalance decimal of
          Inl p \<Rightarrow> (Inl (Panic p), tr)
        | Inr tokenText \<Rightarrow>
          (Inr (), tr @ [Printf (''Token Balance of '' @ addressHex e ethAddress @ '': '' @
                         tokenText @ newline)]))))))))))"

text \<open>\<open>big.NewInt(int64(amount * 1e18))\<close>.\<close>

definition eth_value :: "(float64 \<Rightarrow> 64 word) \<Rightarrow> float64 \<Rightarrow> int" where
  "eth_value oor amount = sint (int64_of_f64 oor (f64_mul amount (F64 False (10 ^ 18) 0)))"

definition transferEth ::
  "env \<Rightarrow> int \<Rightarrow> string \<Rightarrow> float64 \<Rightarrow> (error + unit) \<times> event list" where
  "transferEth e fromIndex toAddress amount =
     (let tr = [Dial] in
      (case dial e of
        Some err \<Rightarrow> (Inl (FailedToConnect err), tr)
      | None \<Rightarrow>
      (if fromIndex < 0 \<or> int (length (accounts e)) \<le> fromIndex
       then (Inl InvalidSenderAccountIndex, tr)
       else
       (let acct = accounts e ! nat fromIndex;
            tr = tr @ [Unlock acct (keystorePassword e)] in
        (case unlock e acct (keystorePassword e) of
          Some err \<Rightarrow> (Inl (FailedToUnlockAccount err), tr)
        | None \<Rightarrow>
       (let val = eth_value (int64_out_of_range e) amount;
            tr = tr @ [PendingNonceAt (acc_address acct)] in
        (case pendingNonceAt e (acc_address acct) of
          Inl err \<Rightarrow> (Inl (FailedToGetNonce err), tr)
        | Inr nonce \<Rightarrow>
       (let gasLimit = 21000;
            tr = tr @ [SuggestGasPrice] in
        (case suggestGasPrice e of
          Inl err \<Rightarrow> (Inl (FailedToGetGasPrice err), tr)
        | Inr gasPrice \<Rightarrow>
       (let tx = \<lparr>tx_nonce = nonce, tx_to = hexToAddress e toAddress, tx_value = val,
                  tx_gasLimit = gasLimit, tx_gasPrice = gasPrice, tx_data = []\<rparr>;
            tr = tr @ [SignTx acct tx chainId] in
        (case signTx e acct tx chainId of
          Inl err \<Rightarrow> (Inl (FailedToSignTransaction err), tr)
        | Inr signedTx \<Rightarrow>
       (let tr = tr @ [SendTransaction signedTx] in
        (case sendTransaction e signedTx of
          Some err \<Rightarrow> (Inl (FailedToSendTransaction err), tr)
        | None \<Rightarrow>
          (Inr (), tr @ [Printf (''Transaction sent: '' @ txHashHex e signedTx @
                         newline)]))))))))))))))"

text \<open>
  \<open>amountInWei := new(big.Int)\<close>, then
  \<open>amountInWei.SetString(fmt.Sprintf("%f", amount*math.Pow10(int(decimal))), 10)\<close>
  with both results ignored: what counts is the value left in the receiver.
\<close>

definition token_amountInWei :: "float64 \<Rightarrow> int \<Rightarrow> int" where
  "token_amountInWei amount decimal =
     fst (SetString10 0 (Sprintf_f (f64_mul amount (Pow10 decimal))))"

definition transferToken ::
  "env \<Rightarrow> int \<Rightarrow> string \<Rightarrow> float64 \<Rightarrow> string \<Rightarrow> int \<Rightarrow> (error + unit) \<times> event list" where
  "transferToken e fromIndex toAddress amount tokenAddress decimal =
     (let tr = [Dial] in
      (case dial e of
        Some err \<Rightarrow> (Inl (FailedToConnect err), tr)
      | None \<Rightarrow>
      (if fromIndex < 0 \<or> int (length (accounts e)) \<le> fromIndex
       then (Inl InvalidSenderAccountIndex, tr)
       else
       (let acct = accounts e ! nat fromIndex;
            tr = tr @ [Unlock acct (keystorePassword e)] in
        (case unlock e acct (keystorePassword e) of
          Some err \<Rightarrow> (Inl (FailedToUnlockAccount err), tr)
        | None \<Rightarrow>
        (case ERCToken e tokenAddress decimal of
          Inl err \<Rightarrow> (Inl (FailedToCreateTokenContract err), tr)
        | Inr tokenContract \<Rightarrow>
       (let amountInWei = token_amountInWei amount decimal;
            tr = tr @ [PendingNonceAt (acc_address acct)] in
        (case pendingNonceAt e (acc_address acct) of
          Inl err \<Rightarrow> (Inl (FailedToGetNonce err), tr)
        | Inr nonce \<Rightarrow>
       (let gasLimit = 60000;
            tr = tr @ [SuggestGasPrice] in
        (case suggestGasPrice e of
          Inl err \<Rightarrow> (Inl (FailedToGetGasPrice err), tr)
        | Inr gasPrice \<Rightarrow>
        (case tok_ABI tokenContract ''transfer''
               [ArgAddress (hexToAddress e toAddress), ArgInt amountInWei] of
          Inl err \<Rightarrow> (Inl (FailedToPackTransferData err), tr)
        | Inr txData \<Rightarrow>
       (let tx = \<lparr>tx_nonce = nonce, tx_to = hexToAddress e tokenAddress, tx_value = 0,
                  tx_gasLimit = gasLimit, tx_gasPrice = gasPrice, tx_data = txData\<rparr>;
            tr = tr @ [SignTx acct tx chainId] in
        (case signTx e acct tx chainId of
          Inl err \<Rightarrow> (Inl (FailedToSignTransaction err), tr)
        | Inr signedTx \<Rightarrow>
       (let tr = tr @ [SendTransaction signedTx] in
        (case sendTransaction e signedTx of
          Some err \<Rightarrow> (Inl (FailedToSendTransaction err), tr)
        | None \<Rightarrow>
          (Inr (), tr @ [Printf (''Token transfer transaction sent: '' @
                         txHashHex e signedTx @ newline)]))))))))))))))))"

text \<open>
  The canonical encoding of a single \<open>uint256\<close> result is one 32-byte word;
  this is the reading of "can be interpreted as an integer" that the contract
  interface gives.
\<close>

definition valid_uint256_encoding :: "byte list \<Rightarrow> bool" where
  "valid_uint256_encoding bs = (length bs = 32)"

section \<open>The round trip of an amount\<close>






text \<open>Kinds of events.\<close>

fun is_SignTx :: "event \<Rightarrow> bool" where
  "is_SignTx (SignTx a t c) = True"
| "is_SignTx ev = False"

fun is_SendTransaction :: "event \<Rightarrow> bool" where
  "is_SendTransaction (SendTransaction s) = True"
| "is_SendTransaction ev = False"

section \<open>A stub environment\<close>

text \<open>
  One identity \<open>A\<close> at index 0, a node that reports a native balance of
  \<open>2 * 10 ^ 18\<close>, answers every contract call with the 32-byte word of
  \<open>5000000\<close>, reports the pending nonce 3 and suggests the gas price 20, and a
  key store that unlocks and signs.
\<close>

definition identity_A :: account where
  "identity_A = \<lparr>acc_address = [0xAA], acc_url = ''keystore://A''\<rparr>"

text \<open>
  The stub interface packs a call as the bytes of the function name followed
  by each argument: an address as it is, an integer as a 32-byte big-endian
  word.
\<close>

fun arg_bytes :: "abi_arg \<Rightarrow> byte list" where
  "arg_bytes (ArgAddress a) = a"
| "arg_bytes (ArgInt v) = map (\<lambda>i. word_of_int (v div 256 ^ (31 - i))) [0..<32]"

definition stub_abi :: abi where
  "stub_abi name args = Inr (map (\<lambda>c. of_nat (of_char c)) name @ concat (map arg_bytes args))"

definition word_5000000 :: "byte list" where
  "word_5000000 = replicate 29 0 @ [0x4C, 0x4B, 0x40]"

definition stub_env :: env where
  "stub_env =
     \<lparr>dial = None,
      accounts = [identity_A],
      unlock = (\<lambda>a p. None),
      signTx = (\<lambda>a tx c. Inr (SignedTx tx [0x01])),
      balanceAt = (\<lambda>a. Inr (2 * 10 ^ 18)),
      pendingNonceAt = (\<lambda>a. Inr 3),
      suggestGasPrice = Inr 20,
      callContract = (\<lambda>a d. Inr word_5000000),
      sendTransaction = (\<lambda>s. None),
      loadTokenABI = Inr stub_abi,
      hexToAddress = (\<lambda>s. if s = ''0xA'' then [0xAA] else if s = ''0xT'' then [0x77] else [0xBB]),
      addressHex = (\<lambda>a. if a = [0xAA] then ''0xA'' else if a = [0x77] then ''0xT'' else ''0xB''),
      txHashHex = (\<lambda>s. ''0xHASH''),
      keystorePassword = ''secret'',
      int64_out_of_range = (\<lambda>x. - (2 ^ 63)),
      shortest_text = (\<lambda>x. [])\<rparr>"

definition stub_token :: Token where
  "stub_token = \<lparr>tok_address = [0x77], tok_decimal = 6, tok_ABI = stub_abi\<rparr>"

section \<open>Token.BalanceOf\<close>

lemma SetBytes_snoc: "SetBytes (bs @ [b]) = SetBytes bs * 256 + uint b"
  by (simp add: SetBytes_def)

lemma SetBytes_nonneg: "0 \<le> SetBytes bs"
  by (induction bs rule: rev_induct) (simp_all add: SetBytes_def)

text \<open>
  C8 (as the code has it). When the call-data packs, \<open>BalanceOf\<close> fails exactly
  when the node call fails, with the error that wraps the node's; whatever
  bytes the node returns, of any length, are read as a big-endian unsigned
  integer and returned as the balance. No response is refused.
\<close>

theorem BalanceOf_result:
  assumes "tok_ABI t ''balanceOf'' [ArgAddress (hexToAddress e addr)] = Inr data"
  shows "fst (BalanceOf e t addr tr) =
           (case callContract e (tok_address t) data of
              Inl err \<Rightarrow> Inl (FailedToCallBalanceOf err)
            | Inr result \<Rightarrow> Inr (SetBytes result))
         \<and> (\<forall>result. 0 \<le> SetBytes result)"
  using assms by (simp add: BalanceOf_def SetBytes_nonneg split: sum.split)

theorem BalanceOf_result_witness:
  "fst (BalanceOf (stub_env\<lparr>callContract := (\<lambda>a d. Inl ''timeout'')\<rparr>) stub_token ''0xA'' []) =
     Inl (FailedToCallBalanceOf ''timeout'')
   \<and> fst (BalanceOf stub_env stub_token ''0xA'' []) = Inr (SetBytes word_5000000)"
proof -
  have p: "tok_ABI stub_token ''balanceOf'' [ArgAddress (hexToAddress e ''0xA'')] =
             Inr (map (\<lambda>c. of_nat (of_char c)) ''balanceOf'' @ hexToAddress e ''0xA'')" for e :: env
    by (simp add: stub_token_def stub_abi_def)
  show ?thesis
    using BalanceOf_result [OF p, of "stub_env\<lparr>callContract := (\<lambda>a d. Inl ''timeout'')\<rparr>" "[]"]
          BalanceOf_result [OF p, of stub_env "[]"]
    by (simp add: stub_env_def)
qed

text \<open>
  C8 (as stated) fails: the empty response is not the encoding of an integer,
  and \<open>BalanceOf\<close> returns the balance 0 for it.
\<close>

theorem BalanceOf_empty_response:
  "\<not> valid_uint256_encoding []
   \<and> fst (BalanceOf (stub_env\<lparr>callContract := (\<lambda>a d. Inr [])\<rparr>) stub_token ''0xA'' []) = Inr 0"
  by (simp add: valid_uint256_encoding_def BalanceOf_def stub_env_def stub_token_def
      stub_abi_def SetBytes_def)

section \<open>Account selection\<close>

lemma checkBalance_invalid_index:
  "index < 0 \<or> int (length (accounts e)) \<le> index \<Longrightarrow>
   checkBalance e index tokenAddress decimal = (Inl InvalidAccountIndex, [])"
  by (simp add: checkBalance_def)

text \<open>
  C7. \<open>checkBalance\<close> checks the index before it touches the node. The two
  transfer commands dial the node first: with the index \<open>-1\<close> the connection
  has been attempted when the index error is returned, and when the
  connection fails the index is never looked at.
\<close>

theorem transfer_invalid_index_dials_first:
  "transferEth stub_env (- 1) ''0xB'' (F64 False 1 0) = (Inl InvalidSenderAccountIndex, [Dial])
   \<and> transferEth (stub_env\<lparr>dial := Some ''unreachable''\<rparr>) (- 1) ''0xB'' (F64 False 1 0) =
       (Inl (FailedToConnect ''unreachable''), [Dial])
   \<and> transferToken stub_env 1 ''0xB'' (F64 False 1 0) ''0xT'' 6 =
       (Inl InvalidSenderAccountIndex, [Dial])
   \<and> transferToken (stub_env\<lparr>dial := Some ''unreachable''\<rparr>) 1 ''0xB'' (F64 False 1 0) ''0xT'' 6 =
       (Inl (FailedToConnect ''unreachable''), [Dial])
   \<and> checkBalance stub_env (- 1) ''0xT'' 6 = (Inl InvalidAccountIndex, [])"
  by (simp add: transferEth_def transferToken_def checkBalance_def stub_env_def)

section \<open>Unlocking\<close>

text \<open>
  C9. When the key store refuses to unlock the selected identity with the
  configured secret, both transfer commands stop at the unlock step: they
  return the error that wraps the key store's, the trace ends with the unlock
  attempt, and it holds neither a signing request nor a broadcast. (When the
  node cannot even be dialled the command has failed before, with the
  connection error.)
\<close>

theorem wrong_secret_stops_before_signing:
  assumes "0 \<le> i" and "i < int (length (accounts e))"
    and "unlock e (accounts e ! nat i) (keystorePassword e) = Some err"
  shows "(dial e = None \<longrightarrow>
            transferEth e i toAddress amount =
              (Inl (FailedToUnlockAccount err),
               [Dial, Unlock (accounts e ! nat i) (keystorePassword e)])
          \<and> transferToken e i toAddress amount tokenAddress decimal =
              (Inl (FailedToUnlockAccount err),
               [Dial, Unlock (accounts e ! nat i) (keystorePassword e)]))
         \<and> isl (fst (transferEth e i toAddress amount))
         \<and> isl (fst (transferToken e i toAddress amount tokenAddress decimal))
         \<and> \<not> list_ex is_SignTx (snd (transferEth e i toAddress amount))
         \<and> \<not> list_ex is_SendTransaction (snd (transferEth e i toAddress amount))
         \<and> \<not> list_ex is_SignTx (snd (transferToken e i toAddress amount tokenAddress decimal))
         \<and> \<not> list_ex is_SendTransaction
               (snd (transferToken e i toAddress amount tokenAddress decimal))"
  using assms
  by (cases "dial e") (simp_all add: transferEth_def transferToken_def)

theorem wrong_secret_stops_before_signing_witness:
  "transferEth (stub_env\<lparr>unlock := (\<lambda>a p. Some ''could not decrypt key with given password'')\<rparr>)
     0 ''0xB'' (F64 False 1 0) =
     (Inl (FailedToUnlockAccount ''could not decrypt key with given password''),
      [Dial, Unlock identity_A ''secret''])
   \<and> transferToken (stub_env\<lparr>unlock := (\<lambda>a p. Some ''could not decrypt key with given password'')\<rparr>)
     0 ''0xB'' (F64 False 1 0) ''0xT'' 6 =
     (Inl (FailedToUnlockAccount ''could not decrypt key with given password''),
      [Dial, Unlock identity_A ''secret''])"
  using wrong_secret_stops_before_signing
    [of 0 "stub_env\<lparr>unlock := (\<lambda>a p. Some ''could not decrypt key with given password'')\<rparr>"
        "''could not decrypt key with given password''" "''0xB''" "F64 False 1 0" "''0xT''" 6]
  by (simp add: stub_env_def)

section \<open>Evaluations of the unit conversion\<close>

lemma format_2e18:
  "formatBigIntToDecimal sh 2000000000000000000 18 = Inr ''2.000000000000000000''"
  by code_simp

lemma format_5000000_6: "formatBigIntToDecimal sh 5000000 6 = Inr ''416666.666667''"
  by code_simp

lemma SetBytes_word_5000000: "SetBytes word_5000000 = 5000000"
  by code_simp

lemma eth_value_tenth: "eth_value oor (f64_of_frac False 1 10) = 100000000000000000"
  by code_simp

section \<open>check-balance\<close>

text \<open>
  C2. With identity \<open>A\<close> at index 0, a native balance of \<open>2 * 10 ^ 18\<close> and a
  token call result of \<open>5000000\<close>, \<open>checkBalance\<close> with \<open>decimal = 6\<close> prints
  the native balance as \<open>2.000000000000000000\<close> and the token balance as
  \<open>416666.666667\<close>: the token amount is divided by \<open>10 XOR 6 = 12\<close>.
\<close>

theorem checkBalance_scenario:
  "checkBalance stub_env 0 ''0xT'' 6 =
     (Inr (),
      [Dial,
       BalanceAt [0xAA],
       Printf (''ETH Balance of 0xA: 2.000000000000000000'' @ newline),
       CallContract [0x77] (map (\<lambda>c. of_nat (of_char c)) ''balanceOf'' @ [0xAA]),
       Printf (''Token Balance of 0xA: 416666.666667'' @ newline)])"
  by (simp add: checkBalance_def getTokenBalance_def ERCToken_def BalanceOf_def stub_env_def
      identity_A_def stub_abi_def Let_def format_2e18 format_5000000_6 SetBytes_word_5000000)

section \<open>transfer-eth\<close>

text \<open>
  C4. The amount \<open>0.1\<close> reaches \<open>transferEth\<close> as the float64 nearest to
  \<open>1 / 10\<close>. When the node is dialled, the identity unlocks, the node reports
  the pending nonce 3 and suggests the gas price 20, the transaction handed
  to the key store has the value \<open>100000000000000000\<close>, the gas limit
  \<open>21000\<close> and the nonce 3, and what the key store returns for it is what is
  sent to the node.
\<close>

theorem transferEth_tenth:
  assumes "dial e = None" and "0 \<le> i" and "i < int (length (accounts e))"
    and "acct = accounts e ! nat i"
    and "unlock e acct (keystorePassword e) = None"
    and "pendingNonceAt e (acc_address acct) = Inr 3"
    and "suggestGasPrice e = Inr 20"
    and "tx = \<lparr>tx_nonce = 3, tx_to = hexToAddress e toAddress, tx_value = 100000000000000000,
                tx_gasLimit = 21000, tx_gasPrice = 20, tx_data = []\<rparr>"
    and "signTx e acct tx chainId = Inr signedTx"
  shows "take 6 (snd (transferEth e i toAddress (f64_of_frac False 1 10))) =
           [Dial, Unlock acct (keystorePassword e), PendingNonceAt (acc_address acct),
            SuggestGasPrice, SignTx acct tx chainId, SendTransaction signedTx]
         \<and> fst (transferEth e i toAddress (f64_of_frac False 1 10)) =
           (case sendTransaction e signedTx of
              None \<Rightarrow> Inr () | Some err \<Rightarrow> Inl (FailedToSendTransaction err))"
  using assms
  by (simp add: transferEth_def Let_def eth_value_tenth split: option.split)

theorem transferEth_tenth_witness:
  "transferEth stub_env 0 ''0xB'' (f64_of_frac False 1 10) =
     (Inr (),
      [Dial, Unlock identity_A ''secret'', PendingNonceAt [0xAA], SuggestGasPrice,
       SignTx identity_A
         \<lparr>tx_nonce = 3, tx_to = [0xBB], tx_value = 100000000000000000,
          tx_gasLimit = 21000, tx_gasPrice = 20, tx_data = []\<rparr> 1,
       SendTransaction
         (SignedTx \<lparr>tx_nonce = 3, tx_to = [0xBB], tx_value = 100000000000000000,
                    tx_gasLimit = 21000, tx_gasPrice = 20, tx_data = []\<rparr> [0x01]),
       Printf (''Transaction sent: 0xHASH'' @ newline)])"
proof -
  have len: "length (snd (transferEth stub_env 0 ''0xB'' (f64_of_frac False 1 10))) = 7"
    by (simp add: transferEth_def Let_def eth_value_tenth stub_env_def)
  have last: "snd (transferEth stub_env 0 ''0xB'' (f64_of_frac False 1 10)) ! 6 =
                Printf (''Transaction sent: 0xHASH'' @ newline)"
    by (simp add: transferEth_def Let_def eth_value_tenth stub_env_def)
  have pre: "take 6 (snd (transferEth stub_env 0 ''0xB'' (f64_of_frac False 1 10))) =
           [Dial, Unlock identity_A ''secret'', PendingNonceAt [0xAA], SuggestGasPrice,
            SignTx identity_A
              \<lparr>tx_nonce = 3, tx_to = [0xBB], tx_value = 100000000000000000,
               tx_gasLimit = 21000, tx_gasPrice = 20, tx_data = []\<rparr> 1,
            SendTransaction
              (SignedTx \<lparr>tx_nonce = 3, tx_to = [0xBB], tx_value = 100000000000000000,
                         tx_gasLimit = 21000, tx_gasPrice = 20, tx_data = []\<rparr> [0x01])]"
    and res: "fst (transferEth stub_env 0 ''0xB'' (f64_of_frac False 1 10)) = Inr ()"
    using transferEth_tenth [of stub_env 0 identity_A
        "\<lparr>tx_nonce = 3, tx_to = [0xBB], tx_value = 100000000000000000,
          tx_gasLimit = 21000, tx_gasPrice = 20, tx_data = []\<rparr>" "''0xB''"
        "SignedTx \<lparr>tx_nonce = 3, tx_to = [0xBB], tx_value = 100000000000000000,
                   tx_gasLimit = 21000, tx_gasPrice = 20, tx_data = []\<rparr> [0x01]"]
    by (simp_all add: stub_env_def identity_A_def chainId_def)
  have "snd (transferEth stub_env 0 ''0xB'' (f64_of_frac False 1 10)) =
          take 6 (snd (transferEth stub_env 0 ''0xB'' (f64_of_frac False 1 10))) @
          [snd (transferEth stub_env 0 ''0xB'' (f64_of_frac False 1 10)) ! 6]"
    using len by (metis lessI take_Suc_conv_app_nth take_all order_refl numeral_eq_Suc pred_numeral_simps(3))
  then show ?thesis
    using pre res last by (metis prod.collapse append.simps)
qed

section \<open>The divisor of the unit conversion\<close>

lemma bitlen_le_53: "0 \<le> m \<Longrightarrow> m < 2 ^ 53 \<Longrightarrow> bitlen m \<le> 53"
  by (simp add: bitlen_le_iff_power)

lemma big_round_53_small: "0 \<le> m \<Longrightarrow> m < 2 ^ 53 \<Longrightarrow> big_round 53 m 0 = Ffinite m 0"
  using bitlen_le_53 [of m] by (simp add: big_round_def round_at_def)

lemma f64_of_int_small: "\<bar>v\<bar> < 2 ^ 53 \<Longrightarrow> f64_of_int v = F64 (v < 0) \<bar>v\<bar> 0"
  using bitlen_le_53 [of "\<bar>v\<bar>"]
  by (simp add: f64_of_int_def f64_round_def round_at_def f64_overflow_def max_def)

lemma and_then_Inr: "and_then (Inr x) f = f x"
  by (simp add: and_then_def)

lemma SetFloat64_one: "SetFloat64 new_Float (F64 False 1 0) =
    Inr \<lparr>bf_prec = 53, bf_neg = False, bf_form = Ffinite 1 0\<rparr>"
  by code_simp

lemma SetFloat64_1e18: "SetFloat64 new_Float (F64 False (10 ^ 18) 0) =
    Inr \<lparr>bf_prec = 53, bf_neg = False, bf_form = Ffinite 7812500000000000 7\<rparr>"
  by code_simp

lemma Mul_one_1e18:
  "Mul \<lparr>bf_prec = 53, bf_neg = False, bf_form = Ffinite 1 0\<rparr>
       \<lparr>bf_prec = 53, bf_neg = False, bf_form = Ffinite 1 0\<rparr>
       \<lparr>bf_prec = 53, bf_neg = False, bf_form = Ffinite 7812500000000000 7\<rparr> =
   Inr \<lparr>bf_prec = 53, bf_neg = False, bf_form = Ffinite 7812500000000000 7\<rparr>"
  by code_simp

lemma SetFloat64_one_again:
  "SetFloat64 \<lparr>bf_prec = 53, bf_neg = False, bf_form = Ffinite 7812500000000000 7\<rparr>
     (F64 False 1 0) =
   Inr \<lparr>bf_prec = 53, bf_neg = False, bf_form = Ffinite 1 0\<rparr>"
  by code_simp

lemma SetFloat64_of_int:
  assumes "\<bar>v\<bar> < 2 ^ 53"
  shows "SetFloat64 new_Float (f64_of_int v) =
    Inr \<lparr>bf_prec = 53, bf_neg = (v < 0),
         bf_form = (if v = 0 then Fzero else Ffinite \<bar>v\<bar> 0)\<rparr>"
  using assms big_round_53_small [of "\<bar>v\<bar>"]
  by (simp add: f64_of_int_small SetFloat64_def new_Float_def Let_def)

lemma Mul_one:
  assumes "\<bar>v\<bar> < 2 ^ 53"
  shows "Mul \<lparr>bf_prec = 53, bf_neg = False, bf_form = Ffinite 1 0\<rparr>
       \<lparr>bf_prec = 53, bf_neg = False, bf_form = Ffinite 1 0\<rparr>
       \<lparr>bf_prec = 53, bf_neg = (v < 0),
         bf_form = (if v = 0 then Fzero else Ffinite \<bar>v\<bar> 0)\<rparr> =
    Inr \<lparr>bf_prec = 53, bf_neg = (v < 0),
         bf_form = (if v = 0 then Fzero else Ffinite \<bar>v\<bar> 0)\<rparr>"
  using assms big_round_53_small [of "\<bar>v\<bar>"]
  by (simp add: Mul_def Let_def)

lemma divisor_of_not_18:
  assumes "decimals \<noteq> 18"
  shows "divisor_of decimals =
           and_then (SetFloat64 new_Float (f64_of_int (10 XOR decimals)))
             (Mul \<lparr>bf_prec = 53, bf_neg = False, bf_form = Ffinite 1 0\<rparr>
                  \<lparr>bf_prec = 53, bf_neg = False, bf_form = Ffinite 1 0\<rparr>)"
  unfolding divisor_of_def SetFloat64_one SetFloat64_1e18 and_then_Inr Mul_one_1e18
    SetFloat64_one_again
  using assms by simp

lemma divisor_of_xor:
  assumes "decimals \<noteq> 18" and "\<bar>10 XOR decimals\<bar> < 2 ^ 53"
  shows "divisor_of decimals =
           Inr \<lparr>bf_prec = 53, bf_neg = (10 XOR decimals < 0),
                bf_form = (if 10 XOR decimals = 0 then Fzero
                           else Ffinite \<bar>10 XOR decimals\<bar> 0)\<rparr>"
  unfolding divisor_of_not_18 [OF assms(1)]
  using assms(2) by (simp only: SetFloat64_of_int and_then_Inr Mul_one)

lemma xor_ne_power:
  assumes "0 \<le> d"
  shows "(10::int) XOR d \<noteq> 10 ^ nat d"
proof (cases "d < 4")
  case True
  with assms have "d = 0 \<or> d = 1 \<or> d = 2 \<or> d = 3" by auto
  then show ?thesis by auto
next
  case False
  then have n: "4 \<le> nat d" by simp
  have "(2::int) ^ 4 \<le> 2 ^ nat d" using n by (intro power_increasing) simp_all
  then have a: "(10::int) < 2 ^ nat d" by simp
  have b: "d < 2 ^ nat d" using assms of_nat_less_two_power [of "nat d", where 'a = int] by simp
  have "(10::int) XOR d < 2 ^ nat d" using a b by (intro XOR_upper) simp_all
  also have "(2::int) ^ nat d < 10 ^ nat d" using n by (intro power_strict_mono) simp_all
  finally show ?thesis by simp
qed

text \<open>
  C3. For every \<open>decimals\<close> other than 18 the divisor of
  \<open>formatBigIntToDecimal\<close> is made from \<open>float64(10 XOR decimals)\<close>. Where
  \<open>10 XOR decimals\<close> is below \<open>2 ^ 53\<close> in size, so that the conversion to
  float64 is exact, the divisor is the number \<open>10 XOR decimals\<close> itself, of
  precision 53, and the amount is divided by it. For no \<open>decimals \<ge> 0\<close> is
  \<open>10 XOR decimals\<close> the power \<open>10 ^ decimals\<close>.
\<close>

theorem divisor_is_xor:
  assumes "decimals \<noteq> 18"
  shows "divisor_of decimals =
           and_then (SetFloat64 new_Float (f64_of_int (10 XOR decimals)))
             (Mul \<lparr>bf_prec = 53, bf_neg = False, bf_form = Ffinite 1 0\<rparr>
                  \<lparr>bf_prec = 53, bf_neg = False, bf_form = Ffinite 1 0\<rparr>)
         \<and> (\<bar>10 XOR decimals\<bar> < 2 ^ 53 \<longrightarrow>
              divisor_of decimals =
                Inr \<lparr>bf_prec = 53, bf_neg = (10 XOR decimals < 0),
                     bf_form = (if 10 XOR decimals = 0 then Fzero
                                else Ffinite \<bar>10 XOR decimals\<bar> 0)\<rparr>
              \<and> formatBigIntToDecimal sh amount decimals =
                  and_then (Quo new_Float (SetInt new_Float amount)
                             \<lparr>bf_prec = 53, bf_neg = (10 XOR decimals < 0),
                              bf_form = (if 10 XOR decimals = 0 then Fzero
                                         else Ffinite \<bar>10 XOR decimals\<bar> 0)\<rparr>)
                    (\<lambda>humanReadable. Inr (Text_f sh humanReadable decimals)))
         \<and> (0 \<le> decimals \<longrightarrow> 10 XOR decimals \<noteq> 10 ^ nat decimals)"
proof -
  have "formatBigIntToDecimal sh amount decimals =
          and_then (Quo new_Float (SetInt new_Float amount)
                     \<lparr>bf_prec = 53, bf_neg = (10 XOR decimals < 0),
                      bf_form = (if 10 XOR decimals = 0 then Fzero
                                 else Ffinite \<bar>10 XOR decimals\<bar> 0)\<rparr>)
            (\<lambda>humanReadable. Inr (Text_f sh humanReadable decimals))"
    if "\<bar>10 XOR decimals\<bar> < 2 ^ 53"
    using divisor_of_xor [OF assms that] by (simp add: formatBigIntToDecimal_def and_then_Inr)
  then show ?thesis
    using divisor_of_not_18 [OF assms] divisor_of_xor [OF assms] xor_ne_power [of decimals]
    by blast
qed

theorem divisor_is_xor_witness:
  "divisor_of 6 = Inr \<lparr>bf_prec = 53, bf_neg = False, bf_form = Ffinite 12 0\<rparr>
   \<and> formatBigIntToDecimal (\<lambda>x. []) 5000000 6 =
       and_then (Quo new_Float (SetInt new_Float 5000000)
                  \<lparr>bf_prec = 53, bf_neg = False, bf_form = Ffinite 12 0\<rparr>)
         (\<lambda>humanReadable. Inr (Text_f (\<lambda>x. []) humanReadable 6))
   \<and> (10::int) XOR 6 \<noteq> 10 ^ 6"
  using divisor_is_xor [of 6 "\<lambda>x. []" 5000000, THEN conjunct2] by simp

text \<open>
  C5. With \<open>decimals = 10\<close> the divisor is \<open>10 XOR 10 = 0\<close>: a positive amount
  is printed as \<open>+Inf\<close>, with no digit after a point, and the amount 0 makes
  \<open>Quo\<close> panic. The example of the claim, with 18 decimals, holds.
\<close>

theorem formatBigIntToDecimal_ten_decimals:
  "formatBigIntToDecimal sh 7 10 = Inr ''+Inf''
   \<and> formatBigIntToDecimal sh 0 10 = Inl ''division of zero by zero or infinity by infinity''
   \<and> formatBigIntToDecimal sh 1000000000000000000 18 = Inr ''1.000000000000000000''"
  by code_simp

section \<open>Decimal text: printing and scanning\<close>

lemma digit_cases: "0 \<le> d \<Longrightarrow> d < 10 \<Longrightarrow>
    d = 0 \<or> d = 1 \<or> d = 2 \<or> d = 3 \<or> d = 4 \<or> d = 5 \<or> d = 6 \<or> d = 7 \<or> d = 8 \<or> d = (9::int)"
  by arith

lemma is_digit_digit_char: "0 \<le> d \<Longrightarrow> d < 10 \<Longrightarrow> is_digit (digit_char d)"
  using digit_cases [of d] by (auto simp: is_digit_def digit_char_def)

lemma digit_val_digit_char: "0 \<le> d \<Longrightarrow> d < 10 \<Longrightarrow> digit_val (digit_char d) = d"
  using digit_cases [of d] by (auto simp: digit_val_def digit_char_def)

lemma digits_of_nonempty: "digits_of n \<noteq> []"
  by (subst digits_of.simps) simp

lemma digits_of_digits: "0 \<le> n \<Longrightarrow> list_all is_digit (digits_of n)"
proof (induction n rule: digits_of.induct)
  case (1 n)
  show ?case
  proof (cases "n < 10")
    case True
    with 1 show ?thesis by (subst digits_of.simps) (simp add: is_digit_digit_char)
  next
    case False
    with 1 have "list_all is_digit (digits_of (n div 10))" by simp
    moreover have "is_digit (digit_char (n mod 10))" by (simp add: is_digit_digit_char)
    ultimately show ?thesis using False by (subst digits_of.simps) simp
  qed
qed

lemma decimal_value_snoc: "decimal_value (ds @ [c]) = decimal_value ds * 10 + digit_val c"
  by (simp add: decimal_value_def)

lemma decimal_value_digits_of: "0 \<le> n \<Longrightarrow> decimal_value (digits_of n) = n"
proof (induction n rule: digits_of.induct)
  case (1 n)
  show ?case
  proof (cases "n < 10")
    case True
    with 1 show ?thesis
      by (subst digits_of.simps) (simp add: decimal_value_def digit_val_digit_char)
  next
    case False
    with 1 have "decimal_value (digits_of (n div 10)) = n div 10" by simp
    then show ?thesis using False
      by (subst digits_of.simps) (simp add: decimal_value_snoc digit_val_digit_char)
  qed
qed

lemma point_not_digit: "\<not> is_digit CHR ''.''"
  by (simp add: is_digit_def)

lemma takeWhile_digits_point:
  "list_all is_digit ds \<Longrightarrow> takeWhile is_digit (ds @ CHR ''.'' # rest) = ds"
  by (induction ds) (simp_all add: point_not_digit)

lemma dropWhile_digits_point:
  "list_all is_digit ds \<Longrightarrow> dropWhile is_digit (ds @ CHR ''.'' # rest) = CHR ''.'' # rest"
  by (induction ds) (simp_all add: point_not_digit)

lemma digit_not_sign: "is_digit c \<Longrightarrow> c \<noteq> CHR ''-'' \<and> c \<noteq> CHR ''+''"
  by (auto simp: is_digit_def)

lemma SetString10_fixed:
  assumes "0 \<le> K"
  shows "SetString10 z ((if s then ''-'' else []) @ digits_of K @ CHR ''.'' # rest) =
           ((if s then - K else K), False)"
proof -
  obtain c cs where ds: "digits_of K = c # cs"
    using digits_of_nonempty [of K] by (cases "digits_of K") auto
  have all: "list_all is_digit (c # cs)"
    using digits_of_digits [OF assms] ds by simp
  then have c: "c \<noteq> CHR ''-''" "c \<noteq> CHR ''+''"
    using digit_not_sign [of c] by simp_all
  have tw: "takeWhile is_digit ((c # cs) @ CHR ''.'' # rest) = c # cs"
    and dw: "dropWhile is_digit ((c # cs) @ CHR ''.'' # rest) = CHR ''.'' # rest"
    using all by (rule takeWhile_digits_point, rule dropWhile_digits_point)
  have val: "decimal_value (c # cs) = K"
    using decimal_value_digits_of [OF assms] ds by simp
  show ?thesis
  proof (cases s)
    case True
    then show ?thesis
      using tw dw val unfolding ds by (simp add: SetString10_def Let_def)
  next
    case False
    then show ?thesis
      using tw dw val c unfolding ds by (simp add: SetString10_def Let_def)
  qed
qed

lemma rhe_div_nonneg: "0 \<le> a \<Longrightarrow> 0 < b \<Longrightarrow> 0 \<le> rhe_div a b"
  by (simp add: rhe_div_def Let_def pos_imp_zdiv_nonneg_iff)

lemma scaled_round_nonneg: "0 \<le> m \<Longrightarrow> 0 \<le> scaled_round m e w"
  by (simp add: scaled_round_def rhe_div_nonneg)

lemma Sprintf_f_finite:
  "Sprintf_f (F64 s m e) =
     (if s then ''-'' else []) @ digits_of (scaled_round m e 6 div 10 ^ 6) @
     CHR ''.'' # frac_digits 6 (scaled_round m e 6 mod 10 ^ 6)"
  by (simp add: Sprintf_f_def fixed_point_def)

section \<open>transfer-token: the amount in base units\<close>

lemma token_amount_of_finite_product:
  assumes "f64_mul amount (Pow10 decimal) = F64 s m e" and "0 \<le> m"
  shows "CHR ''.'' \<in> set (Sprintf_f (f64_mul amount (Pow10 decimal)))
         \<and> SetString10 0 (Sprintf_f (f64_mul amount (Pow10 decimal))) =
             ((if s then - (scaled_round m e 6 div 10 ^ 6) else scaled_round m e 6 div 10 ^ 6),
              False)
         \<and> token_amountInWei amount decimal =
             (if s then - (scaled_round m e 6 div 10 ^ 6) else scaled_round m e 6 div 10 ^ 6)"
proof -
  have K: "0 \<le> scaled_round m e 6 div 10 ^ 6"
    using scaled_round_nonneg [OF assms(2), of e 6] by (simp add: pos_imp_zdiv_nonneg_iff)
  have pt: "CHR ''.'' \<in> set (Sprintf_f (F64 s m e))"
    unfolding Sprintf_f_finite by simp
  have ss: "SetString10 0 (Sprintf_f (F64 s m e)) =
      ((if s then - (scaled_round m e 6 div 10 ^ 6) else scaled_round m e 6 div 10 ^ 6), False)"
    unfolding Sprintf_f_finite by (rule SetString10_fixed [OF K])
  show ?thesis
    using pt ss by (simp add: token_amountInWei_def assms(1))
qed

lemma transferToken_signs_packed_amount:
  assumes "dial e = None" and "0 \<le> i" and "i < int (length (accounts e))"
    and "unlock e (accounts e ! nat i) (keystorePassword e) = None"
    and "loadTokenABI e = Inr pack"
    and "pendingNonceAt e (acc_address (accounts e ! nat i)) = Inr nonce"
    and "suggestGasPrice e = Inr gasPrice"
    and "pack ''transfer'' [ArgAddress (hexToAddress e toAddress),
                            ArgInt (token_amountInWei amount decimal)] = Inr txData"
  shows "snd (transferToken e i toAddress amount tokenAddress decimal) ! 4 =
           SignTx (accounts e ! nat i)
             \<lparr>tx_nonce = nonce, tx_to = hexToAddress e tokenAddress, tx_value = 0,
              tx_gasLimit = 60000, tx_gasPrice = gasPrice, tx_data = txData\<rparr> chainId"
  using assms
  by (simp add: transferToken_def ERCToken_def Let_def split: sum.split option.split)

lemma SetString10_not_a_number:
  "SetString10 0 (Sprintf_f F64NaN) = (0, False) \<and> SetString10 0 (Sprintf_f (F64Inf b)) = (0, False)"
  by (cases b) (simp_all add: Sprintf_f_def SetString10_def is_digit_def)

text \<open>
  C6 (as the code has it). Whenever the product \<open>amount * Pow10(decimal)\<close> is
  finite, its \<open>%f\<close> text holds a decimal point and \<open>SetString\<close> fails on it,
  but only after the scanner has stored the digits before the point in the
  receiver: \<open>amountInWei\<close> is the integer part of the product as printed with
  six decimals (negated for a negative product), and that number is the
  argument packed into the call-data of the transaction that is signed. For a
  product that is NaN or infinite the text holds no point and no digit, and
  the receiver is left at 0.
\<close>

theorem token_amount_is_integer_part:
  assumes "f64_mul amount (Pow10 decimal) = F64 s m ex" and "0 \<le> m"
  shows "CHR ''.'' \<in> set (Sprintf_f (f64_mul amount (Pow10 decimal)))
         \<and> SetString10 0 (Sprintf_f (f64_mul amount (Pow10 decimal))) =
             ((if s then - (scaled_round m ex 6 div 10 ^ 6) else scaled_round m ex 6 div 10 ^ 6),
              False)
         \<and> token_amountInWei amount decimal =
             (if s then - (scaled_round m ex 6 div 10 ^ 6) else scaled_round m ex 6 div 10 ^ 6)
         \<and> (dial e = None \<and> 0 \<le> i \<and> i < int (length (accounts e))
              \<and> unlock e (accounts e ! nat i) (keystorePassword e) = None
              \<and> loadTokenABI e = Inr pack
              \<and> pendingNonceAt e (acc_address (accounts e ! nat i)) = Inr nonce
              \<and> suggestGasPrice e = Inr gasPrice
              \<and> pack ''transfer'' [ArgAddress (hexToAddress e toAddress),
                   ArgInt (if s then - (scaled_round m ex 6 div 10 ^ 6)
                           else scaled_round m ex 6 div 10 ^ 6)] = Inr txData
             \<longrightarrow> snd (transferToken e i toAddress amount tokenAddress decimal) ! 4 =
                   SignTx (accounts e ! nat i)
                     \<lparr>tx_nonce = nonce, tx_to = hexToAddress e tokenAddress, tx_value = 0,
                      tx_gasLimit = 60000, tx_gasPrice = gasPrice, tx_data = txData\<rparr> chainId)
         \<and> SetString10 0 (Sprintf_f F64NaN) = (0, False)
         \<and> SetString10 0 (Sprintf_f (F64Inf b)) = (0, False)"
  using token_amount_of_finite_product [OF assms] SetString10_not_a_number [of b]
    transferToken_signs_packed_amount [of e i pack nonce gasPrice toAddress amount decimal txData]
  by simp

theorem token_amount_is_integer_part_witness:
  "token_amountInWei (f64_of_frac False 15 10) 6 = 1500000
   \<and> snd (transferToken stub_env 0 ''0xB'' (f64_of_frac False 15 10) ''0xT'' 6) ! 4 =
       SignTx identity_A
         \<lparr>tx_nonce = 3, tx_to = [0x77], tx_value = 0, tx_gasLimit = 60000, tx_gasPrice = 20,
          tx_data = map (\<lambda>c. of_nat (of_char c)) ''transfer'' @ [0xBB] @
                    replicate 29 0 @ [0x16, 0xE3, 0x60]\<rparr> chainId"
proof -
  have p: "f64_mul (f64_of_frac False 15 10) (Pow10 6) = F64 False 6442450944000000 (- 32)"
    by code_simp
  have r: "scaled_round 6442450944000000 (- 32) 6 div 10 ^ 6 = 1500000"
    by code_simp
  have d: "stub_abi ''transfer'' [ArgAddress [0xBB], ArgInt 1500000] =
      Inr (map (\<lambda>c. of_nat (of_char c)) ''transfer'' @ [0xBB] @
                    replicate 29 0 @ [0x16, 0xE3, 0x60])"
    by code_simp
  show ?thesis
    using token_amount_is_integer_part [OF p, of stub_env 0 stub_abi 3 20 "''0xB''"
        "map (\<lambda>c. of_nat (of_char c)) ''transfer'' @ [0xBB] @
                    replicate 29 0 @ [0x16, 0xE3, 0x60]" "''0xT''"] r d
    by (simp add: stub_env_def identity_A_def)
qed

text \<open>
  C6 (as stated) fails: for the amount 1 and six decimals the text is
  \<open>1000000.000000\<close>, \<open>SetString\<close> fails and leaves \<open>1000000\<close> in the
  receiver, and the call-data signed carries \<open>1000000 = 0x0F4240\<close>.
\<close>

theorem token_amount_not_zero:
  "Sprintf_f (f64_mul (F64 False 1 0) (Pow10 6)) = ''1000000.000000''
   \<and> SetString10 0 ''1000000.000000'' = (1000000, False)
   \<and> token_amountInWei (F64 False 1 0) 6 = 1000000
   \<and> snd (transferToken stub_env 0 ''0xB'' (F64 False 1 0) ''0xT'' 6) ! 4 =
       SignTx identity_A
         \<lparr>tx_nonce = 3, tx_to = [0x77], tx_value = 0, tx_gasLimit = 60000, tx_gasPrice = 20,
          tx_data = map (\<lambda>c. of_nat (of_char c)) ''transfer'' @ [0xBB] @
                    replicate 29 0 @ [0x0F, 0x42, 0x40]\<rparr> chainId"
  by code_simp

section \<open>The round trip of an amount through text\<close>






section \<open>transfer-eth: the value in base units\<close>

subsection \<open>Rounding to the nearest integer\<close>


lemma rhe_div_lower:
  assumes "0 < b"
  shows "2 * a - b \<le> 2 * (b * rhe_div a b)"
proof -
  let ?q = "a div b" and ?r = "a mod b"
  have r: "0 \<le> ?r" "?r < b" using assms by simp_all
  have a2: "2 * a = 2 * (b * ?q) + 2 * ?r" using mult_div_mod_eq [of b a] by linarith
  have s: "b * (?q + 1) = b * ?q + b" by (simp add: algebra_simps)
  have "(rhe_div a b = ?q \<and> 2 * ?r \<le> b) \<or> rhe_div a b = ?q + 1"
    by (auto simp: rhe_div_def Let_def)
  then show ?thesis using a2 s r by auto
qed




subsection \<open>The product amount * 1e18 against the exact product\<close>











end
